theory Spec2Isabelle
  imports Complex_Main "HOL-Library.Multiset"
begin

section \<open>Numbers\<close>

text \<open>
  A JavaScript \<open>number\<close> is modelled as an exact real extended by the three special
  values of the language: \<open>Infinity\<close>, \<open>-Infinity\<close> and \<open>NaN\<close>. Arithmetic on finite
  values is exact: rounding, overflow and underflow of binary64 are outside the model,
  and \<open>-0\<close> is identified with \<open>0\<close>. The special values follow IEEE 754: \<open>NaN\<close>
  is absorbing, every comparison with \<open>NaN\<close> is false, \<open>Infinity - Infinity\<close> and
  \<open>0 * Infinity\<close> are \<open>NaN\<close>.
\<close>

datatype number = Fin real | PInf | NInf | NaN

instantiation number :: "{plus, minus, times, inverse, ord}"
begin

fun plus_number :: "number \<Rightarrow> number \<Rightarrow> number" where
  "plus_number NaN _ = NaN"
| "plus_number _ NaN = NaN"
| "plus_number (Fin a) (Fin b) = Fin (a + b)"
| "plus_number PInf NInf = NaN"
| "plus_number NInf PInf = NaN"
| "plus_number PInf _ = PInf"
| "plus_number _ PInf = PInf"
| "plus_number NInf _ = NInf"
| "plus_number _ NInf = NInf"

fun minus_number :: "number \<Rightarrow> number \<Rightarrow> number" where
  "minus_number NaN _ = NaN"
| "minus_number _ NaN = NaN"
| "minus_number (Fin a) (Fin b) = Fin (a - b)"
| "minus_number PInf PInf = NaN"
| "minus_number NInf NInf = NaN"
| "minus_number PInf _ = PInf"
| "minus_number _ PInf = NInf"
| "minus_number NInf _ = NInf"
| "minus_number _ NInf = PInf"

fun times_number :: "number \<Rightarrow> number \<Rightarrow> number" where
  "times_number NaN _ = NaN"
| "times_number _ NaN = NaN"
| "times_number (Fin a) (Fin b) = Fin (a * b)"
| "times_number (Fin a) PInf = (if 0 < a then PInf else if a < 0 then NInf else NaN)"
| "times_number (Fin a) NInf = (if 0 < a then NInf else if a < 0 then PInf else NaN)"
| "times_number PInf (Fin b) = (if 0 < b then PInf else if b < 0 then NInf else NaN)"
| "times_number NInf (Fin b) = (if 0 < b then NInf else if b < 0 then PInf else NaN)"
| "times_number PInf PInf = PInf"
| "times_number PInf NInf = NInf"
| "times_number NInf PInf = NInf"
| "times_number NInf NInf = PInf"

text \<open>A zero divisor is taken as \<open>+0\<close>, the sign of zero not being modelled.\<close>

fun divide_number :: "number \<Rightarrow> number \<Rightarrow> number" where
  "divide_number NaN _ = NaN"
| "divide_number _ NaN = NaN"
| "divide_number (Fin a) (Fin b) =
     (if b \<noteq> 0 then Fin (a / b) else if 0 < a then PInf else if a < 0 then NInf else NaN)"
| "divide_number (Fin a) PInf = Fin 0"
| "divide_number (Fin a) NInf = Fin 0"
| "divide_number PInf (Fin b) = (if 0 \<le> b then PInf else NInf)"
| "divide_number NInf (Fin b) = (if 0 \<le> b then NInf else PInf)"
| "divide_number PInf PInf = NaN"
| "divide_number PInf NInf = NaN"
| "divide_number NInf PInf = NaN"
| "divide_number NInf NInf = NaN"

fun inverse_number :: "number \<Rightarrow> number" where
  "inverse_number (Fin a) = (if a \<noteq> 0 then Fin (1 / a) else PInf)"
| "inverse_number PInf = Fin 0"
| "inverse_number NInf = Fin 0"
| "inverse_number NaN = NaN"

fun less_number :: "number \<Rightarrow> number \<Rightarrow> bool" where
  "less_number NaN _ = False"
| "less_number _ NaN = False"
| "less_number (Fin a) (Fin b) = (a < b)"
| "less_number _ NInf = False"
| "less_number PInf _ = False"
| "less_number NInf _ = True"
| "less_number _ PInf = True"

fun less_eq_number :: "number \<Rightarrow> number \<Rightarrow> bool" where
  "less_eq_number NaN _ = False"
| "less_eq_number _ NaN = False"
| "less_eq_number (Fin a) (Fin b) = (a \<le> b)"
| "less_eq_number NInf _ = True"
| "less_eq_number _ PInf = True"
| "less_eq_number PInf _ = False"
| "less_eq_number _ NInf = False"

instance ..

end

text \<open>The functions of the \<open>Math\<close> object that the program calls.\<close>

definition Math_PI :: number where
  "Math_PI = Fin pi"

fun Math_sqrt :: "number \<Rightarrow> number" where
  "Math_sqrt (Fin a) = (if a < 0 then NaN else Fin (sqrt a))"
| "Math_sqrt PInf = PInf"
| "Math_sqrt NInf = NaN"
| "Math_sqrt NaN = NaN"

fun Math_sin :: "number \<Rightarrow> number" where
  "Math_sin (Fin a) = Fin (sin a)"
| "Math_sin PInf = NaN"
| "Math_sin NInf = NaN"
| "Math_sin NaN = NaN"

fun Math_abs :: "number \<Rightarrow> number" where
  "Math_abs (Fin a) = Fin \<bar>a\<bar>"
| "Math_abs PInf = PInf"
| "Math_abs NInf = PInf"
| "Math_abs NaN = NaN"

subsection \<open>parseFloat\<close>

text \<open>
  The global function \<open>parseFloat\<close> of ECMAScript on ASCII text: leading white space is
  skipped, then the longest prefix that is a \<open>StrDecimalLiteral\<close> is read (an optional
  sign, then \<open>Infinity\<close> or decimal digits with an optional fraction and an optional
  exponent part); text without such a prefix gives \<open>NaN\<close>. The value of the literal
  is taken exactly.
\<close>

definition isWhiteSpace :: "char \<Rightarrow> bool" where
  "isWhiteSpace ch =
     (ch \<in> set [CHR '' '', CHR 0x09, CHR 0x0A, CHR 0x0B, CHR 0x0C, CHR 0x0D])"

definition isDigit :: "char \<Rightarrow> bool" where
  "isDigit ch = (ch \<in> set ''0123456789'')"

definition digitsValue :: "string \<Rightarrow> nat" where
  "digitsValue ds = foldl (\<lambda>n d. 10 * n + (of_char d - 48)) 0 ds"

definition signedInteger :: "string \<Rightarrow> int option" where
  "signedInteger s =
     (let body = (if s \<noteq> [] \<and> (hd s = CHR ''+'' \<or> hd s = CHR ''-'') then tl s else s);
          ds = takeWhile isDigit body
      in if ds = [] then None
         else if s \<noteq> [] \<and> hd s = CHR ''-'' then Some (- int (digitsValue ds))
         else Some (int (digitsValue ds)))"

definition exponentPart :: "string \<Rightarrow> int" where
  "exponentPart s =
     (if s \<noteq> [] \<and> (hd s = CHR ''e'' \<or> hd s = CHR ''E'')
      then (case signedInteger (tl s) of None \<Rightarrow> 0 | Some e \<Rightarrow> e)
      else 0)"

definition strUnsignedDecimalLiteral :: "string \<Rightarrow> number" where
  "strUnsignedDecimalLiteral s =
     (if take 8 s = ''Infinity'' then PInf
      else
        let ip = takeWhile isDigit s; r1 = dropWhile isDigit s
        in if r1 \<noteq> [] \<and> hd r1 = CHR ''.''
           then
             (let fp = takeWhile isDigit (tl r1); r2 = dropWhile isDigit (tl r1)
              in if ip = [] \<and> fp = [] then NaN
                 else Fin ((real (digitsValue ip) + real (digitsValue fp) / 10 ^ length fp)
                           * 10 powi exponentPart r2))
           else if ip = [] then NaN
           else Fin (real (digitsValue ip) * 10 powi exponentPart r1))"

fun negate :: "number \<Rightarrow> number" where
  "negate (Fin a) = Fin (- a)"
| "negate PInf = NInf"
| "negate NInf = PInf"
| "negate NaN = NaN"

definition parseFloat :: "string \<Rightarrow> number" where
  "parseFloat s =
     (let t = dropWhile isWhiteSpace s
      in if t \<noteq> [] \<and> hd t = CHR ''-'' then negate (strUnsignedDecimalLiteral (tl t))
         else if t \<noteq> [] \<and> hd t = CHR ''+'' then strUnsignedDecimalLiteral (tl t)
         else strUnsignedDecimalLiteral t)"

section \<open>Data model (types.ts, constants.ts)\<close>

datatype Unit = unit_in | unit_ft | unit_m

datatype CalculationMethod = SSS | SAS | ASA | BaseHeight | Coordinates

text \<open>The keys of \<open>TriangleInputs\<close>; every one of them is optional.\<close>

datatype TriangleInputsKey =
    key_a | key_b | key_c
  | key_sideA | key_sideB | key_angleC
  | key_angleA | key_angleB | key_sideC
  | key_base | key_height
  | key_p1x | key_p1y | key_p2x | key_p2y | key_p3x | key_p3y

type_synonym TriangleInputs = "TriangleInputsKey \<rightharpoonup> string"

text \<open>
  The fields \<open>id\<close> and \<open>method\<close> of \<open>Triangle\<close> are written \<open>id'\<close> and
  \<open>method'\<close>, both names being taken in Isabelle.
\<close>

record Triangle =
  id' :: number
  method' :: CalculationMethod
  inputs :: TriangleInputs

text \<open>
  \<open>CalculationResult\<close> repeats the three fields of \<open>Triangle\<close> and adds four; it is
  the record extension.
\<close>

record CalculationResult = Triangle +
  index :: number
  area :: number
  isValid :: bool
  areaInMeters :: number

fun CONVERSION_FACTORS :: "Unit \<Rightarrow> number" where
  "CONVERSION_FACTORS unit_m = Fin 1"
| "CONVERSION_FACTORS unit_ft = Fin 0.3048"
| "CONVERSION_FACTORS unit_in = Fin 0.0254"

section \<open>Area calculator (utils/calculations.ts)\<close>

definition degToRad :: "number \<Rightarrow> number" where
  "degToRad degrees = degrees * (Math_PI / Fin 180)"

subsection \<open>Validation functions\<close>

definition isSSSValid :: "number \<Rightarrow> number \<Rightarrow> number \<Rightarrow> bool" where
  "isSSSValid a b c =
     (if a \<le> Fin 0 \<or> b \<le> Fin 0 \<or> c \<le> Fin 0 then False
      else a + b > c \<and> a + c > b \<and> b + c > a)"

definition isSASValid :: "number \<Rightarrow> number \<Rightarrow> number \<Rightarrow> bool" where
  "isSASValid sideA sideB angleC =
     (sideA > Fin 0 \<and> sideB > Fin 0 \<and> angleC > Fin 0 \<and> angleC < Fin 180)"

definition isASAValid :: "number \<Rightarrow> number \<Rightarrow> number \<Rightarrow> bool" where
  "isASAValid angleA angleB sideC =
     (angleA > Fin 0 \<and> angleB > Fin 0 \<and> sideC > Fin 0 \<and> angleA + angleB < Fin 180)"

definition isBaseHeightValid :: "number \<Rightarrow> number \<Rightarrow> bool" where
  "isBaseHeightValid base height = (base > Fin 0 \<and> height > Fin 0)"

definition areCoordinatesValid ::
  "number \<Rightarrow> number \<Rightarrow> number \<Rightarrow> number \<Rightarrow> number \<Rightarrow> number \<Rightarrow> bool" where
  "areCoordinatesValid p1x p1y p2x p2y p3x p3y =
     (let area' = Fin 0.5 * Math_abs (p1x * (p2y - p3y) + p2x * (p3y - p1y) + p3x * (p1y - p2y))
      in area' > Fin (1 / 10 ^ 9))"

subsection \<open>Area calculation functions\<close>

definition calculateAreaSSS :: "number \<Rightarrow> number \<Rightarrow> number \<Rightarrow> number" where
  "calculateAreaSSS a b c =
     (if \<not> isSSSValid a b c then Fin 0
      else let s = (a + b + c) / Fin 2
           in Math_sqrt (s * (s - a) * (s - b) * (s - c)))"

definition calculateAreaSAS :: "number \<Rightarrow> number \<Rightarrow> number \<Rightarrow> number" where
  "calculateAreaSAS sideA sideB angleC =
     (if \<not> isSASValid sideA sideB angleC then Fin 0
      else Fin 0.5 * sideA * sideB * Math_sin (degToRad angleC))"

definition calculateAreaASA :: "number \<Rightarrow> number \<Rightarrow> number \<Rightarrow> number" where
  "calculateAreaASA angleA angleB sideC =
     (if \<not> isASAValid angleA angleB sideC then Fin 0
      else let angleC = Fin 180 - angleA - angleB;
               sideA = (sideC * Math_sin (degToRad angleA)) / Math_sin (degToRad angleC)
           in Fin 0.5 * sideA * sideC * Math_sin (degToRad angleB))"

definition calculateAreaBaseHeight :: "number \<Rightarrow> number \<Rightarrow> number" where
  "calculateAreaBaseHeight base height =
     (if \<not> isBaseHeightValid base height then Fin 0
      else Fin 0.5 * base * height)"

definition calculateAreaCoordinates ::
  "number \<Rightarrow> number \<Rightarrow> number \<Rightarrow> number \<Rightarrow> number \<Rightarrow> number \<Rightarrow> number" where
  "calculateAreaCoordinates p1x p1y p2x p2y p3x p3y =
     (if \<not> areCoordinatesValid p1x p1y p2x p2y p3x p3y then Fin 0
      else Fin 0.5 * Math_abs (p1x * (p2y - p3y) + p2x * (p3y - p1y) + p3x * (p1y - p2y)))"

subsection \<open>Master dispatcher\<close>

text \<open>
  \<open>field || '0'\<close>: an absent field and the empty string are both falsy and give \<open>'0'\<close>.
\<close>

definition orZero :: "string option \<Rightarrow> string" where
  "orZero field = (case field of None \<Rightarrow> ''0'' | Some s \<Rightarrow> if s = [] then ''0'' else s)"

text \<open>
  The three variables \<open>area\<close>, \<open>isValid\<close> and \<open>areaInMeters\<close> start as \<open>0\<close>,
  \<open>false\<close> and \<open>0\<close>; each case of the switch sets \<open>isValid\<close> and, when it holds,
  the two areas. \<open>evaluated\<close> is the value of the three after the switch.
\<close>

definition evaluated :: "CalculationMethod \<Rightarrow> TriangleInputs \<Rightarrow> number \<Rightarrow> number \<times> bool \<times> number" where
  "evaluated m inp factor =
     (case m of
        SSS \<Rightarrow>
          (let a = parseFloat (orZero (inp key_a));
               b = parseFloat (orZero (inp key_b));
               c = parseFloat (orZero (inp key_c))
           in if isSSSValid a b c
              then (calculateAreaSSS a b c, True,
                    calculateAreaSSS (a * factor) (b * factor) (c * factor))
              else (Fin 0, False, Fin 0))
      | SAS \<Rightarrow>
          (let sideA = parseFloat (orZero (inp key_sideA));
               sideB = parseFloat (orZero (inp key_sideB));
               angleC = parseFloat (orZero (inp key_angleC))
           in if isSASValid sideA sideB angleC
              then (let ar = calculateAreaSAS sideA sideB angleC
                    in (ar, True, ar * factor * factor))
              else (Fin 0, False, Fin 0))
      | ASA \<Rightarrow>
          (let angleA = parseFloat (orZero (inp key_angleA));
               angleB = parseFloat (orZero (inp key_angleB));
               sideC = parseFloat (orZero (inp key_sideC))
           in if isASAValid angleA angleB sideC
              then (let ar = calculateAreaASA angleA angleB sideC
                    in (ar, True, ar * factor * factor))
              else (Fin 0, False, Fin 0))
      | BaseHeight \<Rightarrow>
          (let base = parseFloat (orZero (inp key_base));
               height = parseFloat (orZero (inp key_height))
           in if isBaseHeightValid base height
              then (let ar = calculateAreaBaseHeight base height
                    in (ar, True, ar * factor * factor))
              else (Fin 0, False, Fin 0))
      | Coordinates \<Rightarrow>
          (let p1x = parseFloat (orZero (inp key_p1x));
               p1y = parseFloat (orZero (inp key_p1y));
               p2x = parseFloat (orZero (inp key_p2x));
               p2y = parseFloat (orZero (inp key_p2y));
               p3x = parseFloat (orZero (inp key_p3x));
               p3y = parseFloat (orZero (inp key_p3y))
           in if areCoordinatesValid p1x p1y p2x p2y p3x p3y
              then (let ar = calculateAreaCoordinates p1x p1y p2x p2y p3x p3y
                    in (ar, True, ar * factor * factor))
              else (Fin 0, False, Fin 0)))"

definition calculateTriangleResult :: "Triangle \<Rightarrow> Unit \<Rightarrow> number \<Rightarrow> CalculationResult" where
  "calculateTriangleResult triangle unit ix =
     (let factor = CONVERSION_FACTORS unit;
          (ar, valid, arM) = evaluated (method' triangle) (inputs triangle) factor
      in \<lparr> id' = id' triangle, method' = method' triangle, inputs = inputs triangle,
           index = ix, area = ar, isValid = valid, areaInMeters = arM \<rparr>)"

definition convertArea :: "number \<Rightarrow> Unit \<Rightarrow> Unit \<Rightarrow> number" where
  "convertArea areaInMeters' fromUnit toUnit =
     (if fromUnit = toUnit then areaInMeters'
      else let fromFactor = CONVERSION_FACTORS fromUnit;
               toFactor = CONVERSION_FACTORS toUnit
           in areaInMeters' * (fromFactor / toFactor) * (fromFactor / toFactor))"

section \<open>Polygon triangulator (utils/geometry.ts)\<close>

text \<open>
  \<open>Point\<close> is \<open>{ x: number; y: number }\<close>; the fields are named \<open>xc\<close> and \<open>yc\<close>
  here, to leave \<open>x\<close> and \<open>y\<close> free as variables.
\<close>

record Point =
  xc :: number
  yc :: number

type_synonym triangle = "Point \<times> Point \<times> Point"

definition signedArea :: "Point \<Rightarrow> Point \<Rightarrow> Point \<Rightarrow> number" where
  "signedArea p1 p2 p3 = (xc p1 - xc p3) * (yc p2 - yc p3) - (xc p2 - xc p3) * (yc p1 - yc p3)"

definition isPointInTriangle :: "Point \<Rightarrow> Point \<Rightarrow> Point \<Rightarrow> Point \<Rightarrow> bool" where
  "isPointInTriangle q v1 v2 v3 =
     (let d1 = signedArea q v1 v2;
          d2 = signedArea q v2 v3;
          d3 = signedArea q v3 v1;
          has_neg = (d1 < Fin 0 \<or> d2 < Fin 0 \<or> d3 < Fin 0);
          has_pos = (d1 > Fin 0 \<or> d2 > Fin 0 \<or> d3 > Fin 0)
      in \<not> (has_neg \<and> has_pos))"

text \<open>
  The first loop of \<open>earClippingTriangulation\<close>: the shoelace sum over consecutive
  vertex pairs, accumulated from index \<open>0\<close> upwards.
\<close>

definition polygonArea :: "Point list \<Rightarrow> number" where
  "polygonArea vertices =
     fold (\<lambda>i ar.
             let p1 = vertices ! i;
                 p2 = vertices ! ((i + 1) mod length vertices)
             in ar + (xc p1 * yc p2 - xc p2 * yc p1))
          [0..<length vertices] (Fin 0)"

text \<open>
  The body of the scan over \<open>i\<close>: \<open>earTriangle\<close> is the triple
  \<open>[p_prev, p_curr, p_next]\<close> at position \<open>i\<close> of the index list, and \<open>isEar\<close>
  is the test that the scan applies to it (the vertex is convex, and the loop over
  \<open>j\<close> finds no other vertex inside the triangle).
\<close>

definition earTriangle :: "Point list \<Rightarrow> nat list \<Rightarrow> nat \<Rightarrow> triangle" where
  "earTriangle vertices indices i =
     (let prev_i = indices ! ((i + length indices - 1) mod length indices);
          curr_i = indices ! i;
          next_i = indices ! ((i + 1) mod length indices)
      in (vertices ! prev_i, vertices ! curr_i, vertices ! next_i))"

definition isEar :: "Point list \<Rightarrow> nat list \<Rightarrow> nat \<Rightarrow> bool" where
  "isEar vertices indices i =
     (let prev_i = indices ! ((i + length indices - 1) mod length indices);
          curr_i = indices ! i;
          next_i = indices ! ((i + 1) mod length indices);
          p_prev = vertices ! prev_i;
          p_curr = vertices ! curr_i;
          p_next = vertices ! next_i
      in signedArea p_prev p_curr p_next \<ge> Fin 0 \<and>
         \<not> list_ex (\<lambda>j. j \<noteq> prev_i \<and> j \<noteq> curr_i \<and> j \<noteq> next_i \<and>
                         isPointInTriangle (vertices ! j) p_prev p_curr p_next)
                   [0..<length vertices])"

text \<open>
  The \<open>while\<close> loop. \<open>cap\<close> is \<open>polygon.length * 2\<close>. A pass takes the first
  position of the index list that is an ear, pushes its triangle and splices the
  position out; a pass that finds none leaves the loop (the \<open>break\<close> after the
  diagnostic message).
\<close>

function clipEars ::
  "Point list \<Rightarrow> nat \<Rightarrow> nat list \<Rightarrow> triangle list \<Rightarrow> nat \<Rightarrow> nat list \<times> triangle list" where
  "clipEars vertices cap indices triangles iterations =
     (if length indices > 3 \<and> iterations < cap
      then (case find (isEar vertices indices) [0..<length indices] of
              None \<Rightarrow> (indices, triangles)
            | Some i \<Rightarrow>
                clipEars vertices cap (take i indices @ drop (Suc i) indices)
                  (triangles @ [earTriangle vertices indices i]) (Suc iterations))
      else (indices, triangles))"
  by pat_completeness auto
termination
  by (relation "measure (\<lambda>(vertices, cap, indices, triangles, iterations). cap - iterations)") auto

definition earClippingTriangulation :: "Point list \<Rightarrow> triangle list" where
  "earClippingTriangulation polygon =
     (if length polygon < 3 then []
      else
        let vertices = (if polygonArea polygon > Fin 0 then rev polygon else polygon);
            indices = [0..<length vertices];
            (indices', triangles) = clipEars vertices (length polygon * 2) indices [] 0
        in triangles @
           [(vertices ! (indices' ! 0), vertices ! (indices' ! 1), vertices ! (indices' ! 2))])"

section \<open>Notions of the specification\<close>

text \<open>The fields that each case of the dispatcher reads.\<close>

fun fieldsOf :: "CalculationMethod \<Rightarrow> TriangleInputsKey list" where
  "fieldsOf SSS = [key_a, key_b, key_c]"
| "fieldsOf SAS = [key_sideA, key_sideB, key_angleC]"
| "fieldsOf ASA = [key_angleA, key_angleB, key_sideC]"
| "fieldsOf BaseHeight = [key_base, key_height]"
| "fieldsOf Coordinates = [key_p1x, key_p1y, key_p2x, key_p2y, key_p3x, key_p3y]"

text \<open>
  A field is unparsable or absent when it is not there or its text is not a decimal
  number; \<open>zeroFilled\<close> replaces each such field by the string \<open>"0"\<close>.
\<close>

definition unparsable :: "string option \<Rightarrow> bool" where
  "unparsable field = (case field of None \<Rightarrow> True | Some s \<Rightarrow> parseFloat s = NaN)"

definition zeroFilled :: "TriangleInputs \<Rightarrow> TriangleInputs" where
  "zeroFilled inp = (\<lambda>k. if unparsable (inp k) then Some ''0'' else inp k)"

text \<open>
  The unsigned area of a triangle (\<open>signedArea\<close> is twice the signed area), the sum of
  the areas of a list of triangles, and the shoelace area of a polygon.
\<close>

definition triangleArea :: "triangle \<Rightarrow> number" where
  "triangleArea t = (case t of (p1, p2, p3) \<Rightarrow> Fin 0.5 * Math_abs (signedArea p1 p2 p3))"

definition sumOfAreas :: "triangle list \<Rightarrow> number" where
  "sumOfAreas ts = fold (\<lambda>t s. s + triangleArea t) ts (Fin 0)"

definition shoelaceArea :: "Point list \<Rightarrow> number" where
  "shoelaceArea polygon = Fin 0.5 * Math_abs (polygonArea polygon)"



section \<open>Auxiliary notions of the proofs\<close>




definition denan :: "number \<Rightarrow> number" where
  "denan v = (if v = NaN then Fin 0 else v)"

section \<open>Concrete inputs\<close>

definition pt :: "real \<Rightarrow> real \<Rightarrow> Point" where
  "pt a b = \<lparr> xc = Fin a, yc = Fin b \<rparr>"

text \<open>The convex quadrilateral of the specification, and a pentagon with a reflex vertex.\<close>

definition square :: "Point list" where
  "square = [pt 0 0, pt 2 0, pt 2 2, pt 0 2]"

definition pentagon :: "Point list" where
  "pentagon = [pt 0 0, pt 4 0, pt 4 4, pt 2 1, pt 0 4]"

definition collinear3 :: "Point list" where
  "collinear3 = [pt 0 0, pt 1 1, pt 2 2]"

text \<open>Triangle specifications, each with \<open>id\<close> 1.\<close>

definition spec :: "CalculationMethod \<Rightarrow> TriangleInputs \<Rightarrow> Triangle" where
  "spec m inp = \<lparr> id' = Fin 1, method' = m, inputs = inp \<rparr>"

definition sss_113 :: Triangle where
  "sss_113 = spec SSS [key_a \<mapsto> ''1'', key_b \<mapsto> ''1'', key_c \<mapsto> ''3'']"

definition sss_345 :: Triangle where
  "sss_345 = spec SSS [key_a \<mapsto> ''3'', key_b \<mapsto> ''4'', key_c \<mapsto> ''5'']"

definition sss_no_a :: Triangle where
  "sss_no_a = spec SSS [key_b \<mapsto> ''4'', key_c \<mapsto> ''5'']"

definition coords_no_p1x :: Triangle where
  "coords_no_p1x = spec Coordinates
     [key_p1y \<mapsto> ''0'', key_p2x \<mapsto> ''1'', key_p2y \<mapsto> ''0'', key_p3x \<mapsto> ''0'', key_p3y \<mapsto> ''1'']"

definition coords_dash_p1x :: Triangle where
  "coords_dash_p1x = spec Coordinates
     [key_p1x \<mapsto> ''-'', key_p1y \<mapsto> ''0'', key_p2x \<mapsto> ''1'', key_p2y \<mapsto> ''0'',
      key_p3x \<mapsto> ''0'', key_p3y \<mapsto> ''1'']"

definition sas_dash_angle :: Triangle where
  "sas_dash_angle = spec SAS [key_sideA \<mapsto> ''3'', key_sideB \<mapsto> ''4'', key_angleC \<mapsto> ''-'']"


section \<open>Facts about numbers and parsing\<close>

lemmas parseFloat_defs = parseFloat_def strUnsignedDecimalLiteral_def exponentPart_def
  signedInteger_def digitsValue_def isDigit_def isWhiteSpace_def

lemma parseFloat_0: "parseFloat ''0'' = Fin 0"
  by (simp add: parseFloat_defs)

lemma parseFloat_1: "parseFloat ''1'' = Fin 1"
  by (simp add: parseFloat_defs)

lemma parseFloat_3: "parseFloat ''3'' = Fin 3"
  by (simp add: parseFloat_defs)

lemma parseFloat_4: "parseFloat ''4'' = Fin 4"
  by (simp add: parseFloat_defs)

lemma parseFloat_5: "parseFloat ''5'' = Fin 5"
  by (simp add: parseFloat_defs)

lemma parseFloat_dash: "parseFloat ''-'' = NaN"
  by (simp add: parseFloat_defs)

lemma parseFloat_empty: "parseFloat [] = NaN"
  by (simp add: parseFloat_defs)

lemmas parseFloat_literals =
  parseFloat_0 parseFloat_1 parseFloat_3 parseFloat_4 parseFloat_5 parseFloat_dash

lemma parse_unset: "inp k = None \<Longrightarrow> parseFloat (orZero (inp k)) = Fin 0"
  by (simp add: orZero_def parseFloat_0)

lemma parse_zeroFilled:
  "parseFloat (orZero (zeroFilled inp k)) = denan (parseFloat (orZero (inp k)))"
  by (auto simp: zeroFilled_def unparsable_def orZero_def denan_def parseFloat_0 parseFloat_empty
      split: option.splits)



section \<open>The dispatcher, case by case\<close>

lemma result_fields:
  "isValid (calculateTriangleResult t u i) = fst (snd (evaluated (method' t) (inputs t) (CONVERSION_FACTORS u)))"
  "area (calculateTriangleResult t u i) = fst (evaluated (method' t) (inputs t) (CONVERSION_FACTORS u))"
  "areaInMeters (calculateTriangleResult t u i) = snd (snd (evaluated (method' t) (inputs t) (CONVERSION_FACTORS u)))"
  by (simp_all add: calculateTriangleResult_def split: prod.splits)

lemma evaluated_invalid:
  "\<not> fst (snd (evaluated m inp f)) \<Longrightarrow> evaluated m inp f = (Fin 0, False, Fin 0)"
  by (cases m) (simp_all add: evaluated_def Let_def split: if_splits)

lemma isValid_SSS:
  "method' t = SSS \<Longrightarrow>
   isValid (calculateTriangleResult t u i) =
     isSSSValid (parseFloat (orZero (inputs t key_a))) (parseFloat (orZero (inputs t key_b)))
       (parseFloat (orZero (inputs t key_c)))"
  by (simp add: result_fields evaluated_def Let_def)

lemma isValid_SAS:
  "method' t = SAS \<Longrightarrow>
   isValid (calculateTriangleResult t u i) =
     isSASValid (parseFloat (orZero (inputs t key_sideA))) (parseFloat (orZero (inputs t key_sideB)))
       (parseFloat (orZero (inputs t key_angleC)))"
  by (simp add: result_fields evaluated_def Let_def)

lemma isValid_ASA:
  "method' t = ASA \<Longrightarrow>
   isValid (calculateTriangleResult t u i) =
     isASAValid (parseFloat (orZero (inputs t key_angleA))) (parseFloat (orZero (inputs t key_angleB)))
       (parseFloat (orZero (inputs t key_sideC)))"
  by (simp add: result_fields evaluated_def Let_def)

lemma isValid_BaseHeight:
  "method' t = BaseHeight \<Longrightarrow>
   isValid (calculateTriangleResult t u i) =
     isBaseHeightValid (parseFloat (orZero (inputs t key_base)))
       (parseFloat (orZero (inputs t key_height)))"
  by (simp add: result_fields evaluated_def Let_def)








section \<open>Validity predicates and area formulas\<close>

lemma isSSSValid_iff:
  "isSSSValid a b c =
     (Fin 0 < a \<and> Fin 0 < b \<and> Fin 0 < c \<and> a < b + c \<and> b < a + c \<and> c < a + b)"
  by (cases a; cases b; cases c) (auto simp: isSSSValid_def)













section \<open>Replacing NaN by zero\<close>

lemma SSS_denan: "isSSSValid (denan a) (denan b) (denan c) = isSSSValid a b c"
  by (cases a; cases b; cases c) (auto simp: isSSSValid_def denan_def split: if_splits)

lemma SSS_valid_denan: "isSSSValid a b c \<Longrightarrow> denan a = a \<and> denan b = b \<and> denan c = c"
  by (cases a; cases b; cases c) (auto simp: isSSSValid_def denan_def split: if_splits)

lemma SAS_denan: "isSASValid (denan a) (denan b) (denan c) = isSASValid a b c"
  by (cases a; cases b; cases c) (simp_all add: isSASValid_def denan_def)

lemma SAS_valid_denan: "isSASValid a b c \<Longrightarrow> denan a = a \<and> denan b = b \<and> denan c = c"
  by (cases a; cases b; cases c) (simp_all add: isSASValid_def denan_def)

lemma ASA_denan: "isASAValid (denan a) (denan b) (denan c) = isASAValid a b c"
  by (cases a; cases b; cases c) (simp_all add: isASAValid_def denan_def)

lemma ASA_valid_denan: "isASAValid a b c \<Longrightarrow> denan a = a \<and> denan b = b \<and> denan c = c"
  by (cases a; cases b; cases c) (simp_all add: isASAValid_def denan_def)

lemma BaseHeight_denan: "isBaseHeightValid (denan a) (denan b) = isBaseHeightValid a b"
  by (cases a; cases b) (simp_all add: isBaseHeightValid_def denan_def)

lemma BaseHeight_valid_denan: "isBaseHeightValid a b \<Longrightarrow> denan a = a \<and> denan b = b"
  by (cases a; cases b) (simp_all add: isBaseHeightValid_def denan_def)

lemma evaluated_zeroFilled:
  assumes "m = Coordinates \<longrightarrow>
    (\<forall>k \<in> set (fieldsOf Coordinates). parseFloat (orZero (inp k)) \<noteq> NaN)"
  shows "evaluated m (zeroFilled inp) f = evaluated m inp f"
proof (cases m)
  case SSS
  show ?thesis
  proof (cases "isSSSValid (parseFloat (orZero (inp key_a))) (parseFloat (orZero (inp key_b)))
      (parseFloat (orZero (inp key_c)))")
    case True
    with SSS_valid_denan[OF True] show ?thesis
      unfolding SSS evaluated_def parse_zeroFilled by simp
  next
    case False
    then show ?thesis
      unfolding SSS evaluated_def parse_zeroFilled by (simp add: SSS_denan)
  qed
next
  case SAS
  show ?thesis
  proof (cases "isSASValid (parseFloat (orZero (inp key_sideA)))
      (parseFloat (orZero (inp key_sideB))) (parseFloat (orZero (inp key_angleC)))")
    case True
    with SAS_valid_denan[OF True] show ?thesis
      unfolding SAS evaluated_def parse_zeroFilled by simp
  next
    case False
    then show ?thesis
      unfolding SAS evaluated_def parse_zeroFilled by (simp add: SAS_denan)
  qed
next
  case ASA
  show ?thesis
  proof (cases "isASAValid (parseFloat (orZero (inp key_angleA)))
      (parseFloat (orZero (inp key_angleB))) (parseFloat (orZero (inp key_sideC)))")
    case True
    with ASA_valid_denan[OF True] show ?thesis
      unfolding ASA evaluated_def parse_zeroFilled by simp
  next
    case False
    then show ?thesis
      unfolding ASA evaluated_def parse_zeroFilled by (simp add: ASA_denan)
  qed
next
  case BaseHeight
  show ?thesis
  proof (cases "isBaseHeightValid (parseFloat (orZero (inp key_base)))
      (parseFloat (orZero (inp key_height)))")
    case True
    with BaseHeight_valid_denan[OF True] show ?thesis
      unfolding BaseHeight evaluated_def parse_zeroFilled by simp
  next
    case False
    then show ?thesis
      unfolding BaseHeight evaluated_def parse_zeroFilled by (simp add: BaseHeight_denan)
  qed
next
  case Coordinates
  with assms have "\<And>k. k \<in> set (fieldsOf Coordinates) \<Longrightarrow>
      denan (parseFloat (orZero (inp k))) = parseFloat (orZero (inp k))"
    by (auto simp: denan_def)
  then show ?thesis
    unfolding Coordinates evaluated_def parse_zeroFilled by simp
qed

section \<open>The ear-removal loop\<close>

lemma find_upt_less: "find P [0..<n] = Some i \<Longrightarrow> i < n"
  by (auto simp: find_Some_iff)

text \<open>
  Each pass moves one index from the index list to the list of triangles, and the loop
  never shortens the index list below three.
\<close>

lemma clipEars_lengths:
  "3 \<le> length indices \<Longrightarrow>
   clipEars vertices cap indices triangles iterations = (indices', triangles') \<Longrightarrow>
   3 \<le> length indices' \<and>
   length triangles' + length indices' = length triangles + length indices"
proof (induction vertices cap indices triangles iterations rule: clipEars.induct)
  case (1 vertices cap indices triangles iterations)
  show ?case
  proof (cases "length indices > 3 \<and> iterations < cap")
    case False
    with "1.prems" show ?thesis by (simp split: if_splits)
  next
    case True
    show ?thesis
    proof (cases "find (isEar vertices indices) [0..<length indices]")
      case None
      with True "1.prems" show ?thesis by simp
    next
      case (Some i)
      then have i: "i < length indices" by (rule find_upt_less)
      let ?ix = "take i indices @ drop (Suc i) indices"
      have len: "length ?ix = length indices - 1"
        using i by simp
      have rec: "clipEars vertices cap ?ix (triangles @ [earTriangle vertices indices i])
          (Suc iterations) = (indices', triangles')"
        using "1.prems"(2) True Some by simp
      have "3 \<le> length ?ix"
        unfolding len using True by linarith
      note ih = "1.IH"[OF True Some this rec]
      have e: "length (triangles @ [earTriangle vertices indices i]) + length ?ix
          = length triangles + length indices"
        unfolding len using True by auto
      from ih show ?thesis unfolding e .
    qed
  qed
qed

section \<open>The shoelace sum of a reversed polygon\<close>









section \<open>Evaluation at the concrete inputs\<close>

lemmas spec_simps = spec_def orZero_def parseFloat_literals result_fields evaluated_def Let_def



section \<open>The claims\<close>

subsection \<open>Ear clipping\<close>

text \<open>
  C1 (the code departs from the claim). The claim: ear clipping on a simple polygon with
  \<open>n \<ge> 3\<close> vertices gives exactly \<open>n - 2\<close> triangles whose unsigned areas sum to the
  shoelace area of the polygon; on the quadrilateral (0,0), (2,0), (2,2), (0,2) it gives
  2 triangles whose areas sum to 4. The program, on that quadrilateral, gives one
  triangle, of area 2, the shoelace area being 4: the winding normalisation reverses the
  polygon when its shoelace sum is positive, after which \<open>signedArea\<close> is negative at
  every convex vertex, so that no vertex of a convex polygon passes the test
  \<open>signedArea \<ge> 0\<close> and the first pass ends with no ear found. On the pentagon
  (0,0), (4,0), (4,4), (2,1), (0,4) the program clips the reflex vertex (2,1) and gives
  2 triangles, not 3, whose areas sum to 14, the shoelace area being 10.
\<close>

theorem C1_square_gives_one_triangle:
  "length square = 4 \<and>
   earClippingTriangulation square = [(pt 0 2, pt 2 2, pt 2 0)] \<and>
   sumOfAreas (earClippingTriangulation square) = Fin 2 \<and>
   shoelaceArea square = Fin 4 \<and>
   length pentagon = 5 \<and>
   length (earClippingTriangulation pentagon) = 2 \<and>
   sumOfAreas (earClippingTriangulation pentagon) = Fin 14 \<and>
   shoelaceArea pentagon = Fin 10"
  by code_simp



text \<open>
  C9. For every input polygon with \<open>n \<ge> 3\<close> points the triangulator returns at least
  one and at most \<open>n - 2\<close> triangles: the final triangle is pushed unconditionally,
  also after a pass that found no ear, and also for three collinear points.
\<close>

theorem C9_triangle_count_bounds:
  assumes "3 \<le> length polygon"
  shows "1 \<le> length (earClippingTriangulation polygon) \<and>
    length (earClippingTriangulation polygon) \<le> length polygon - 2"
proof -
  let ?v = "if polygonArea polygon > Fin 0 then rev polygon else polygon"
  obtain ix ts where r: "clipEars ?v (length polygon * 2) [0..<length ?v] [] 0 = (ix, ts)"
    by (cases "clipEars ?v (length polygon * 2) [0..<length ?v] [] 0")
  have "3 \<le> length [0..<length ?v]"
    using assms by simp
  from clipEars_lengths[OF this r]
  have "3 \<le> length ix" "length ts + length ix = length polygon"
    by (simp_all split: if_splits)
  moreover have "length (earClippingTriangulation polygon) = length ts + 1"
    using assms r by (simp add: earClippingTriangulation_def Let_def)
  ultimately show ?thesis by simp
qed

text \<open>
  Witness of C9: three collinear points give exactly one triangle.
\<close>

theorem C9_triangle_count_bounds_witness:
  "length collinear3 = 3 \<and> length (earClippingTriangulation collinear3) = 1"
proof -
  have l: "3 \<le> length collinear3"
    by (simp add: collinear3_def)
  show ?thesis
    using C9_triangle_count_bounds[OF l] by (simp add: collinear3_def)
qed

subsection \<open>The area calculator\<close>

text \<open>
  C2, as stated, fails: the claim is that a specification with one of the fields of its
  method unset is never valid, for every method; the Coordinates specification with
  \<open>p1x\<close> unset and the other five fields giving (_,0), (1,0), (0,1) is valid, the unset
  coordinate being read as 0.
\<close>

theorem C2_counterexample:
  "method' coords_no_p1x = Coordinates \<and>
   inputs coords_no_p1x key_p1x = None \<and>
   isValid (calculateTriangleResult coords_no_p1x unit_m (Fin 0))"
  by (simp add: coords_no_p1x_def spec_simps areCoordinatesValid_def)

text \<open>
  C2, amended. For the methods SSS, SAS, ASA and BaseHeight, a specification with at
  least one of the fields of its method unset is not valid, whatever the other fields
  hold. (For Coordinates an unset field is the coordinate 0, and validity depends on the
  area alone.)
\<close>

theorem C2_unset_field_invalid:
  assumes "method' t \<noteq> Coordinates" and "k \<in> set (fieldsOf (method' t))"
    and "inputs t k = None"
  shows "\<not> isValid (calculateTriangleResult t u i)"
proof -
  have z: "parseFloat (orZero (inputs t k)) = Fin 0"
    using assms(3) by (rule parse_unset)
  show ?thesis
  proof (cases "method' t")
    case SSS
    then show ?thesis
      using assms(2) z by (auto simp: isValid_SSS isSSSValid_iff)
  next
    case SAS
    then show ?thesis
      using assms(2) z by (auto simp: isValid_SAS isSASValid_def)
  next
    case ASA
    then show ?thesis
      using assms(2) z by (auto simp: isValid_ASA isASAValid_def)
  next
    case BaseHeight
    then show ?thesis
      using assms(2) z by (auto simp: isValid_BaseHeight isBaseHeightValid_def)
  next
    case Coordinates
    then show ?thesis
      using assms(1) by simp
  qed
qed

text \<open>
  Witness of C2, amended: the SSS specification with \<open>b = 4\<close>, \<open>c = 5\<close> and \<open>a\<close>
  unset.
\<close>

theorem C2_unset_field_invalid_witness:
  "method' sss_no_a = SSS \<and> inputs sss_no_a key_a = None \<and>
   \<not> isValid (calculateTriangleResult sss_no_a unit_ft (Fin 0))"
proof -
  have m: "method' sss_no_a \<noteq> Coordinates"
    by (simp add: sss_no_a_def spec_def)
  have k: "key_a \<in> set (fieldsOf (method' sss_no_a))"
    by (simp add: sss_no_a_def spec_def)
  have n: "inputs sss_no_a key_a = None"
    by (simp add: sss_no_a_def spec_def)
  show ?thesis
    using C2_unset_field_invalid[OF m k n] n by (simp add: sss_no_a_def spec_def)
qed

text \<open>
  C3, as stated, fails: the claim is that every unparsable or absent field is treated as
  0, so that the result is that of the specification with each such field replaced by
  \<open>"0"\<close>. The Coordinates specification with \<open>p1x = "-"\<close> (text that the input form
  accepts) and the other fields giving (_,0), (1,0), (0,1) is not valid, \<open>parseFloat\<close>
  reading \<open>"-"\<close> as NaN; with \<open>p1x\<close> replaced by \<open>"0"\<close> it is valid.
\<close>

theorem C3_counterexample:
  "unparsable (inputs coords_dash_p1x key_p1x) \<and>
   \<not> isValid (calculateTriangleResult coords_dash_p1x unit_m (Fin 0)) \<and>
   isValid (calculateTriangleResult
     (coords_dash_p1x\<lparr>inputs := zeroFilled (inputs coords_dash_p1x)\<rparr>) unit_m (Fin 0))"
  by (simp add: coords_dash_p1x_def spec_simps areCoordinatesValid_def zeroFilled_def
      unparsable_def)

text \<open>
  C3, amended. An absent or empty field is read as 0; a field whose text is not empty
  and not a number is read as NaN, which fails every validation. So the validity flag
  and the two areas of the result are those of the specification with each unparsable
  or absent field replaced by \<open>"0"\<close>, for SSS, SAS, ASA and BaseHeight always, and for
  Coordinates when none of the six coordinate fields is read as NaN.
\<close>

theorem C3_zero_filled_outcome:
  assumes "method' t = Coordinates \<longrightarrow>
    (\<forall>k \<in> set (fieldsOf Coordinates). parseFloat (orZero (inputs t k)) \<noteq> NaN)"
  shows "isValid (calculateTriangleResult (t\<lparr>inputs := zeroFilled (inputs t)\<rparr>) u i)
      = isValid (calculateTriangleResult t u i) \<and>
    area (calculateTriangleResult (t\<lparr>inputs := zeroFilled (inputs t)\<rparr>) u i)
      = area (calculateTriangleResult t u i) \<and>
    areaInMeters (calculateTriangleResult (t\<lparr>inputs := zeroFilled (inputs t)\<rparr>) u i)
      = areaInMeters (calculateTriangleResult t u i)"
  using evaluated_zeroFilled[OF assms] by (simp add: result_fields)

text \<open>
  Witness of C3, amended: the SAS specification with sides 3 and 4 and the angle
  \<open>"-"\<close> is not valid, and neither is it with the angle replaced by \<open>"0"\<close>.
\<close>

theorem C3_zero_filled_outcome_witness:
  "unparsable (inputs sas_dash_angle key_angleC) \<and>
   zeroFilled (inputs sas_dash_angle) key_angleC = Some ''0'' \<and>
   isValid (calculateTriangleResult
     (sas_dash_angle\<lparr>inputs := zeroFilled (inputs sas_dash_angle)\<rparr>) unit_m (Fin 0))
     = isValid (calculateTriangleResult sas_dash_angle unit_m (Fin 0)) \<and>
   \<not> isValid (calculateTriangleResult sas_dash_angle unit_m (Fin 0))"
proof -
  have h: "method' sas_dash_angle = Coordinates \<longrightarrow>
      (\<forall>k \<in> set (fieldsOf Coordinates). parseFloat (orZero (inputs sas_dash_angle k)) \<noteq> NaN)"
    by (simp add: sas_dash_angle_def spec_def)
  have "\<not> isValid (calculateTriangleResult sas_dash_angle unit_m (Fin 0))"
    by (simp add: sas_dash_angle_def spec_simps isSASValid_def)
  moreover have "unparsable (inputs sas_dash_angle key_angleC)"
    by (simp add: sas_dash_angle_def spec_def unparsable_def parseFloat_dash)
  ultimately show ?thesis
    using C3_zero_filled_outcome[OF h, of unit_m "Fin 0"] by (simp add: zeroFilled_def)
qed

text \<open>
  C5. The dispatcher is a total function: it returns a result for every specification,
  unit and index, with no error path; and when the result is not valid, its \<open>area\<close>
  and its \<open>areaInMeters\<close> are 0.
\<close>

theorem C5_invalid_result_zero:
  "\<exists>r. calculateTriangleResult t u i = r \<and>
     (\<not> isValid r \<longrightarrow> area r = Fin 0 \<and> areaInMeters r = Fin 0)"
  using evaluated_invalid[of "method' t" "inputs t" "CONVERSION_FACTORS u"]
  by (auto simp: result_fields)

text \<open>
  Witness of C5: the SSS specification with sides 1, 1, 3.
\<close>

theorem C5_invalid_result_zero_witness:
  "\<not> isValid (calculateTriangleResult sss_113 unit_m (Fin 0)) \<and>
   area (calculateTriangleResult sss_113 unit_m (Fin 0)) = Fin 0 \<and>
   areaInMeters (calculateTriangleResult sss_113 unit_m (Fin 0)) = Fin 0"
proof -
  have "\<not> isValid (calculateTriangleResult sss_113 unit_m (Fin 0))"
    by (simp add: sss_113_def spec_simps isSSSValid_def)
  then show ?thesis
    using C5_invalid_result_zero[of sss_113 unit_m "Fin 0"] by simp
qed

text \<open>
  C6. An SSS specification with parsed side lengths \<open>a\<close>, \<open>b\<close>, \<open>c\<close> is valid if and
  only if the three are positive and each is strictly less than the sum of the other
  two; the sides (1,1,3) give \<open>isValid = false\<close> and \<open>area = 0\<close>.
\<close>

theorem C6_sss_validity:
  "(method' t = SSS \<longrightarrow>
      isValid (calculateTriangleResult t u i) =
        (let a = parseFloat (orZero (inputs t key_a));
             b = parseFloat (orZero (inputs t key_b));
             c = parseFloat (orZero (inputs t key_c))
         in Fin 0 < a \<and> Fin 0 < b \<and> Fin 0 < c \<and> a < b + c \<and> b < a + c \<and> c < a + b)) \<and>
   \<not> isValid (calculateTriangleResult sss_113 u i) \<and>
   area (calculateTriangleResult sss_113 u i) = Fin 0"
proof -
  have "\<not> isValid (calculateTriangleResult sss_113 u i)"
    by (simp add: sss_113_def spec_simps isSSSValid_def)
  moreover have "area (calculateTriangleResult sss_113 u i) = Fin 0"
    by (simp add: sss_113_def spec_simps isSSSValid_def)
  ultimately show ?thesis
    by (simp add: isValid_SSS isSSSValid_iff Let_def)
qed

text \<open>
  Witness of C6: the sides (3,4,5) are positive and satisfy the three strict
  inequalities, and the specification is valid.
\<close>

theorem C6_sss_validity_witness:
  "method' sss_345 = SSS \<and> isValid (calculateTriangleResult sss_345 unit_m (Fin 0)) \<and>
   parseFloat (orZero (inputs sss_345 key_a)) = Fin 3 \<and>
   parseFloat (orZero (inputs sss_345 key_b)) = Fin 4 \<and>
   parseFloat (orZero (inputs sss_345 key_c)) = Fin 5"
proof -
  have m: "method' sss_345 = SSS"
    by (simp add: sss_345_def spec_def)
  have p: "parseFloat (orZero (inputs sss_345 key_a)) = Fin 3"
    "parseFloat (orZero (inputs sss_345 key_b)) = Fin 4"
    "parseFloat (orZero (inputs sss_345 key_c)) = Fin 5"
    by (simp_all add: sss_345_def spec_simps)
  show ?thesis
    using C6_sss_validity[of sss_345 unit_m "Fin 0"] m p by (simp add: Let_def)
qed



text \<open>
  C8. \<open>convertArea x u u\<close> is \<open>x\<close> itself, for every value \<open>x\<close> (NaN and the
  infinities included) and every unit \<open>u\<close>: the function returns its argument before
  any conversion factor is read.
\<close>

theorem C8_convertArea_same_unit: "convertArea v u u = v"
  by (simp add: convertArea_def)



end
